theory Spec2Isabelle
  imports Main "HOL-Library.Sublist"
begin

section \<open>JavaScript values\<close>

text \<open>
  Values that travel through the chat route as parsed JSON. A property that is not there
  reads as \<open>undefined\<close>, which is \<open>None\<close> of \<open>json option\<close>. Numbers are kept as
  integers: the only thing the route does with one is to test it for truthiness.
\<close>

datatype json =
    JNull
  | JBool bool
  | JNum int
  | JStr string
  | JArr "json list"
  | JObj "(string \<times> json) list"

text \<open>JavaScript truthiness, as \<open>!x\<close> and \<open>x || y\<close> read it.\<close>

fun truthy :: "json option \<Rightarrow> bool" where
  "truthy None = False"
| "truthy (Some JNull) = False"
| "truthy (Some (JBool b)) = b"
| "truthy (Some (JNum n)) = (n \<noteq> 0)"
| "truthy (Some (JStr s)) = (s \<noteq> [])"
| "truthy (Some (JArr xs)) = True"
| "truthy (Some (JObj kvs)) = True"

text \<open>\<open>x || d\<close> for a default \<open>d\<close> that is a value.\<close>

definition or_else :: "json option \<Rightarrow> json \<Rightarrow> json" where
  "or_else x d = (case x of None \<Rightarrow> d | Some v \<Rightarrow> if truthy x then v else d)"

text \<open>Reading a property of a parsed body that is not \<open>null\<close>.\<close>

fun property :: "json \<Rightarrow> string \<Rightarrow> json option" where
  "property (JObj kvs) k = map_of kvs k"
| "property v k = None"

text \<open>\<open>String.prototype.includes\<close>.\<close>

fun js_includes :: "string \<Rightarrow> string \<Rightarrow> bool" where
  "js_includes [] sub = (sub = [])"
| "js_includes (c # cs) sub = (prefix sub (c # cs) \<or> js_includes cs sub)"

text \<open>
  What a \<open>catch\<close> clause can receive: an \<open>Error\<close> (or a subclass) with its message, or
  a value that is not an \<open>Error\<close>.
\<close>

datatype thrown = Error string | NotAnError

section \<open>The chat route: data\<close>

text \<open>
  Objects of the v0 SDK, with the properties the route reads. A message and a file may
  have more properties than those: the \<open>_rest\<close> field holds them. The route leaves
  them behind where it copies an object property by property, and passes them on where
  it hands the SDK's own object to the response (the files of a \<open>send\<close>).
\<close>

record sdk_file =
  file_name :: string
  file_content :: string
  file_rest :: "(string \<times> json) list"

record sdk_version =
  version_content :: "string option"
  version_files :: "sdk_file list option"

record sdk_chat =
  chat_id :: string
  chat_webUrl :: string
  chat_apiUrl :: string
  chat_shareable :: bool
  chat_privacy :: string
  chat_latestVersion :: "sdk_version option"

record sdk_message =
  message_id :: string
  message_role :: string
  message_content :: string
  message_createdAt :: string
  message_rest :: "(string \<times> json) list"

record sdk_messages_response =
  response_data :: "sdk_message list option"

text \<open>The result of \<open>chats.create\<close> and \<open>chats.sendMessage\<close>: a stream or a chat.\<close>

datatype sdk_reply = ReadableStream | ChatReply sdk_chat

record create_params =
  create_message :: json
  create_system :: json
  create_responseMode :: string

record send_params =
  send_chatId :: json
  send_message :: json
  send_responseMode :: string

text \<open>
  The type \<open>ChatDetail\<close> of the route. Its fields \<open>id\<close> and \<open>content\<close> carry a
  prefix here, since a record field is a constant of its own and those names are taken.
\<close>

record detail_file =
  name :: string
  content :: string

record detail_version =
  latest_content :: "string option"
  latest_files :: "detail_file list option"

record detail_message =
  msg_id :: string
  role :: string
  msg_content :: string
  createdAt :: string

record ChatDetail =
  detail_id :: string
  webUrl :: string
  apiUrl :: string
  shareable :: bool
  privacy :: string
  latestVersion :: "detail_version option"
  messages :: "detail_message list option"

text \<open>
  Everything outside the handler: the environment variable and what each SDK operation
  answers (a thrown value or a result).
\<close>

record env =
  V0_API_KEY :: "string option"
  getById :: "string \<Rightarrow> thrown + sdk_chat"
  findMessages :: "string \<Rightarrow> nat \<Rightarrow> thrown + sdk_messages_response"
  create :: "create_params \<Rightarrow> thrown + sdk_reply"
  sendMessage :: "send_params \<Rightarrow> thrown + sdk_reply"

text \<open>The SDK calls a handler makes, in order, each with what it answered.\<close>

datatype sdk_event =
    Ev_createClient string
  | Ev_getById string "thrown + sdk_chat"
  | Ev_findMessages string nat "thrown + sdk_messages_response"
  | Ev_create create_params "thrown + sdk_reply"
  | Ev_sendMessage send_params "thrown + sdk_reply"

text \<open>A computation inside a \<open>try\<close> block: it throws or returns, and leaves its calls.\<close>

type_synonym 'a attempt = "(thrown + 'a) \<times> sdk_event list"

definition and_then :: "'a attempt \<Rightarrow> ('a \<Rightarrow> 'b attempt) \<Rightarrow> 'b attempt" where
  "and_then m f =
     (case m of
        (Inl e, t) \<Rightarrow> (Inl e, t)
      | (Inr a, t) \<Rightarrow> (case f a of (r, t') \<Rightarrow> (r, t @ t')))"

text \<open>The request: its query parameters in order, and what \<open>request.json()\<close> gives.\<close>

record request =
  searchParams :: "(string \<times> string) list"
  json_body :: "thrown + json"

record response =
  res_status :: nat
  res_body :: json

text \<open>\<open>NextResponse.json(body)\<close> and \<open>NextResponse.json(body, { status })\<close>.\<close>

definition NextResponse_json :: "json \<Rightarrow> response" where
  "NextResponse_json b = \<lparr>res_status = 200, res_body = b\<rparr>"

definition NextResponse_json_status :: "json \<Rightarrow> nat \<Rightarrow> response" where
  "NextResponse_json_status b st = \<lparr>res_status = st, res_body = b\<rparr>"

section \<open>The chat route: operations\<close>

definition missing_key_message :: string where
  "missing_key_message = ''V0_API_KEY not configured. Please add it to your .env.local file.''"

definition key_configured :: "env \<Rightarrow> bool" where
  "key_configured e = (case V0_API_KEY e of None \<Rightarrow> False | Some k \<Rightarrow> k \<noteq> [])"

definition getV0Client :: "env \<Rightarrow> string attempt" where
  "getV0Client e =
     (case V0_API_KEY e of
        None \<Rightarrow> (Inl (Error missing_key_message), [])
      | Some apiKey \<Rightarrow>
          if apiKey = [] then (Inl (Error missing_key_message), [])
          else (Inr apiKey, [Ev_createClient apiKey]))"

definition call_getById :: "env \<Rightarrow> string \<Rightarrow> sdk_chat attempt" where
  "call_getById e chatId = (getById e chatId, [Ev_getById chatId (getById e chatId)])"

definition call_findMessages :: "env \<Rightarrow> string \<Rightarrow> nat \<Rightarrow> sdk_messages_response attempt" where
  "call_findMessages e chatId limit =
     (findMessages e chatId limit, [Ev_findMessages chatId limit (findMessages e chatId limit)])"

definition call_create :: "env \<Rightarrow> create_params \<Rightarrow> sdk_reply attempt" where
  "call_create e p = (create e p, [Ev_create p (create e p)])"

definition call_sendMessage :: "env \<Rightarrow> send_params \<Rightarrow> sdk_reply attempt" where
  "call_sendMessage e p = (sendMessage e p, [Ev_sendMessage p (sendMessage e p)])"

definition copy_file :: "sdk_file \<Rightarrow> detail_file" where
  "copy_file f = \<lparr>name = file_name f, content = file_content f\<rparr>"

definition copy_version :: "sdk_version \<Rightarrow> detail_version" where
  "copy_version v =
     \<lparr>latest_content = version_content v,
      latest_files = map_option (map copy_file) (version_files v)\<rparr>"

definition copy_message :: "sdk_message \<Rightarrow> detail_message" where
  "copy_message m =
     \<lparr>msg_id = message_id m, role = message_role m,
      msg_content = message_content m, createdAt = message_createdAt m\<rparr>"

definition fetchChatDetail :: "env \<Rightarrow> string \<Rightarrow> bool \<Rightarrow> ChatDetail attempt" where
  "fetchChatDetail e chatId includeMessages =
     and_then (getV0Client e) (\<lambda>client.
     and_then (call_getById e chatId) (\<lambda>chat.
       let detail =
         \<lparr>detail_id = chat_id chat,
          webUrl = chat_webUrl chat,
          apiUrl = chat_apiUrl chat,
          shareable = chat_shareable chat,
          privacy = chat_privacy chat,
          latestVersion = map_option copy_version (chat_latestVersion chat),
          messages = None\<rparr>
       in
         if includeMessages then
           and_then (call_findMessages e chatId 50) (\<lambda>messagesResponse.
             (Inr (detail\<lparr>messages :=
                     Some (case response_data messagesResponse of
                             None \<Rightarrow> []
                           | Some ms \<Rightarrow> map copy_message ms)\<rparr>), []))
         else (Inr detail, [])))"

text \<open>How the objects the handlers return are written as JSON.\<close>

definition json_of_message :: "detail_message \<Rightarrow> json" where
  "json_of_message m =
     JObj [(''id'', JStr (msg_id m)), (''role'', JStr (role m)),
           (''content'', JStr (msg_content m)), (''createdAt'', JStr (createdAt m))]"

definition json_of_file :: "detail_file \<Rightarrow> json" where
  "json_of_file f = JObj [(''name'', JStr (name f)), (''content'', JStr (content f))]"

text \<open>An object of the SDK written whole; its further properties come after the two read.\<close>

definition json_of_sdk_file :: "sdk_file \<Rightarrow> json" where
  "json_of_sdk_file f =
     JObj ((''name'', JStr (file_name f)) # (''content'', JStr (file_content f)) # file_rest f)"

definition error_body :: "string \<Rightarrow> json" where
  "error_body msg = JObj [(''error'', JStr msg)]"

text \<open>The \<open>catch\<close> clause of both handlers, with the handler's own fallback message.\<close>

definition caught_message :: "string \<Rightarrow> thrown \<Rightarrow> string" where
  "caught_message fallback err = (case err of Error m \<Rightarrow> m | NotAnError \<Rightarrow> fallback)"

definition caught_status :: "string \<Rightarrow> nat" where
  "caught_status message = (if js_includes message ''V0_API_KEY'' then 500 else 400)"

definition on_catch :: "string \<Rightarrow> thrown \<Rightarrow> response" where
  "on_catch fallback err =
     (let message = caught_message fallback err
      in NextResponse_json_status (error_body message) (caught_status message))"

definition GET_try :: "env \<Rightarrow> request \<Rightarrow> response attempt" where
  "GET_try e req =
     (case map_of (searchParams req) ''chatId'' of
        None \<Rightarrow>
          (Inr (NextResponse_json_status (error_body ''chatId query parameter is required'') 400), [])
      | Some chatId \<Rightarrow>
          if chatId = [] then
            (Inr (NextResponse_json_status (error_body ''chatId query parameter is required'') 400), [])
          else
            and_then (fetchChatDetail e chatId True) (\<lambda>chatDetail.
              (Inr (NextResponse_json (JObj
                 [(''chatId'', JStr (detail_id chatDetail)),
                  (''webUrl'', JStr (webUrl chatDetail)),
                  (''apiUrl'', JStr (apiUrl chatDetail)),
                  (''shareable'', JBool (shareable chatDetail)),
                  (''privacy'', JStr (privacy chatDetail)),
                  (''messages'', JArr (map json_of_message
                      (case messages chatDetail of None \<Rightarrow> [] | Some ms \<Rightarrow> ms)))])), [])))"

definition GET :: "env \<Rightarrow> request \<Rightarrow> response \<times> sdk_event list" where
  "GET e req =
     (case GET_try e req of
        (Inr res, t) \<Rightarrow> (res, t)
      | (Inl err, t) \<Rightarrow> (on_catch ''Failed to fetch chat details'' err, t))"

text \<open>
  Destructuring \<open>null\<close> throws a \<open>TypeError\<close>; the text is the JavaScript engine's (V8's here).
\<close>

definition null_destructure_message :: string where
  "null_destructure_message = ''Cannot destructure property 'action' of 'body' as it is null.''"

text \<open>\<open>s || d\<close> for an optional string \<open>s\<close>.\<close>

definition string_or :: "string option \<Rightarrow> string \<Rightarrow> string" where
  "string_or x d = (case x of None \<Rightarrow> d | Some s \<Rightarrow> if s = [] then d else s)"

definition invalid_action_message :: string where
  \<open>invalid_action_message = ''Invalid action. Use "create" or "send"''\<close>

definition POST_try :: "env \<Rightarrow> request \<Rightarrow> response attempt" where
  "POST_try e req =
     (case json_body req of
        Inl err \<Rightarrow> (Inl err, [])
      | Inr body \<Rightarrow>
          if body = JNull then (Inl (Error null_destructure_message), [])
          else
            let action = property body ''action'';
                message = property body ''message'';
                chatId = property body ''chatId'';
                system = property body ''system''
            in
            and_then (getV0Client e) (\<lambda>v0Client.
              if action = Some (JStr ''create'') then
                and_then (call_create e
                    \<lparr>create_message = or_else message (JStr ''Hello!''),
                     create_system = or_else system (JStr ''You are a helpful coding assistant.''),
                     create_responseMode = ''sync''\<rparr>) (\<lambda>chat.
                  case chat of
                    ReadableStream \<Rightarrow>
                      (Inr (NextResponse_json_status
                         (error_body ''Streaming response not supported. Please use standard chat creation.'')
                         400), [])
                  | ChatReply createdChat \<Rightarrow>
                      and_then (fetchChatDetail e (chat_id createdChat) False) (\<lambda>refreshedChat.
                        (Inr (NextResponse_json (JObj
                           [(''chatId'', JStr (detail_id refreshedChat)),
                            (''webUrl'', JStr (webUrl refreshedChat)),
                            (''apiUrl'', JStr (apiUrl refreshedChat)),
                            (''shareable'', JBool (shareable refreshedChat)),
                            (''privacy'', JStr (privacy refreshedChat)),
                            (''message'', JStr ''Chat created successfully''),
                            (''response'', JStr (string_or
                               (case latestVersion refreshedChat of
                                  None \<Rightarrow> None | Some v \<Rightarrow> latest_content v)
                               ''Chat created successfully'')),
                            (''files'', JArr (map json_of_file
                               (case latestVersion refreshedChat of
                                  None \<Rightarrow> []
                                | Some v \<Rightarrow> (case latest_files v of None \<Rightarrow> [] | Some fs \<Rightarrow> fs))))])),
                         [])))
              else if action = Some (JStr ''send'') then
                (case (chatId, message) of
                   (Some c, Some m) \<Rightarrow>
                     if \<not> truthy (Some c) \<or> \<not> truthy (Some m) then
                       (Inr (NextResponse_json_status
                          (error_body ''chatId and message are required for send action'') 400), [])
                     else
                       and_then (call_sendMessage e
                           \<lparr>send_chatId = c, send_message = m, send_responseMode = ''sync''\<rparr>)
                         (\<lambda>response.
                           case response of
                             ReadableStream \<Rightarrow>
                               (Inr (NextResponse_json_status
                                  (error_body ''Streaming response not supported. Please use standard message sending.'')
                                  400), [])
                           | ChatReply chatDetail \<Rightarrow>
                               (Inr (NextResponse_json (JObj
                                  [(''success'', JBool True),
                                   (''response'', JStr (string_or
                                      (case chat_latestVersion chatDetail of
                                         None \<Rightarrow> None | Some v \<Rightarrow> version_content v)
                                      ''Message sent successfully'')),
                                   (''files'', JArr (map json_of_sdk_file
                                      (case chat_latestVersion chatDetail of
                                         None \<Rightarrow> []
                                       | Some v \<Rightarrow>
                                           (case version_files v of None \<Rightarrow> [] | Some fs \<Rightarrow> fs))))])),
                                []))
                 | _ \<Rightarrow>
                     (Inr (NextResponse_json_status
                        (error_body ''chatId and message are required for send action'') 400), []))
              else
                (Inr (NextResponse_json_status
                   (error_body invalid_action_message) 400), [])))"

definition POST :: "env \<Rightarrow> request \<Rightarrow> response \<times> sdk_event list" where
  "POST e req =
     (case POST_try e req of
        (Inr res, t) \<Rightarrow> (res, t)
      | (Inl err, t) \<Rightarrow> (on_catch ''Failed to process chat request'' err, t))"

section \<open>The header component: data\<close>

record session_user =
  user_id :: string
  user_username :: string
  user_email :: "string option"
  user_name :: "string option"
  user_avatar :: "string option"

datatype auth_provider = Github | Vercel

record SessionInfo =
  user :: "session_user option"
  authProvider :: "auth_provider option"

record GitHubStatusResponse =
  status_connected :: bool
  status_username :: "string option"
  status_connectedAt :: "string option"

text \<open>
  The values of the two atoms the header shares with the rest of the page. A \<open>Date\<close> is
  kept as the string it was built from.
\<close>

record github_connection =
  connected :: bool
  username :: "string option"
  connectedAt :: "string option"

record github_selection =
  owner :: string
  repo :: string
  branch :: string

datatype push_status = Idle | Loading | Success | Failed

record push_state =
  push_status :: push_status
  push_message :: "string option"

text \<open>The state the component reads and writes: its own hooks and the atoms.\<close>

record header =
  session :: "SessionInfo option"
  sessionLoading :: bool
  statusLoading :: bool
  pushState :: push_state
  selection :: "github_selection option"
  githubConnection :: github_connection
  githubConnectionInitialized :: bool
  branchInput :: string
  commitMessage :: string

text \<open>
  What an awaited \<open>fetch\<close> followed by \<open>response.json()\<close> can come to: the fetch rejects,
  the response is not ok (with its status), the body does not parse, or the data arrive.
\<close>

datatype 'a fetched = Rejected thrown | NotOk nat | BadJson thrown | Data 'a

record signout_data =
  signout_url :: "string option"

text \<open>
  The answer of \<open>/api/github/push\<close>: \<open>response.ok\<close> and the fields read from its body
  (all absent when the body does not parse).
\<close>

record push_data =
  data_error :: "string option"
  data_noChanges :: bool
  data_branch :: "string option"
  data_commit :: "string option"

datatype push_outcome = PushRejected thrown | PushResponse bool push_data

record push_request =
  push_owner :: string
  push_repo :: string
  push_branch :: string
  push_commitMessage :: string

section \<open>The header component: derived values and handlers\<close>

definition selectedOwner :: "header \<Rightarrow> string" where
  "selectedOwner s = (case selection s of None \<Rightarrow> [] | Some sel \<Rightarrow> owner sel)"

definition selectedRepo :: "header \<Rightarrow> string" where
  "selectedRepo s = (case selection s of None \<Rightarrow> [] | Some sel \<Rightarrow> repo sel)"

definition selectedBranch :: "header \<Rightarrow> string" where
  "selectedBranch s = (case selection s of None \<Rightarrow> ''main'' | Some sel \<Rightarrow> branch sel)"

definition selectedFullName :: "header \<Rightarrow> string option" where
  "selectedFullName s =
     (case selection s of
        None \<Rightarrow> None
      | Some sel \<Rightarrow>
          if owner sel \<noteq> [] \<and> repo sel \<noteq> [] then Some (owner sel @ ''/'' @ repo sel) else None)"

definition disconnected :: github_connection where
  "disconnected = \<lparr>connected = False, username = None, connectedAt = None\<rparr>"

definition idle :: push_state where
  "idle = \<lparr>push_status = Idle, push_message = None\<rparr>"

definition has_user :: "header \<Rightarrow> bool" where
  "has_user s = (case session s of None \<Rightarrow> False | Some info \<Rightarrow> user info \<noteq> None)"

text \<open>\<open>fetchSession\<close>: up to the \<open>await\<close>, and from the answer on.\<close>

definition fetchSession_begin :: "header \<Rightarrow> header" where
  "fetchSession_begin s = s\<lparr>sessionLoading := True\<rparr>"

definition fetchSession_done :: "SessionInfo fetched \<Rightarrow> header \<Rightarrow> header" where
  "fetchSession_done answer s =
     (case answer of
        Data d \<Rightarrow> s\<lparr>session := Some d, sessionLoading := False\<rparr>
      | _ \<Rightarrow> s\<lparr>session := None, sessionLoading := False\<rparr>)"

text \<open>
  \<open>fetchGitHubStatus\<close>: up to the \<open>await\<close>, and from the answer on; the second part also
  gives the status the function returns.
\<close>

definition fetchGitHubStatus_begin :: "header \<Rightarrow> header" where
  "fetchGitHubStatus_begin s = s\<lparr>statusLoading := True\<rparr>"

definition fetchGitHubStatus_done ::
  "GitHubStatusResponse fetched \<Rightarrow> header \<Rightarrow> header \<times> GitHubStatusResponse" where
  "fetchGitHubStatus_done answer s =
     (case answer of
        Data d \<Rightarrow>
          (s\<lparr>githubConnection :=
               \<lparr>connected = status_connected d,
                username = status_username d,
                connectedAt =
                  (case status_connectedAt d of
                     None \<Rightarrow> None
                   | Some at \<Rightarrow> if at = [] then None else Some at)\<rparr>,
             selection := (if \<not> status_connected d then None else selection s),
             statusLoading := False,
             githubConnectionInitialized := True\<rparr>,
           d)
      | _ \<Rightarrow>
          (s\<lparr>githubConnection := disconnected,
             selection := None,
             statusLoading := False,
             githubConnectionInitialized := True\<rparr>,
           \<lparr>status_connected = False, status_username = None, status_connectedAt = None\<rparr>))"

text \<open>
  The effect that depends on \<open>session?.user\<close>. With a user it starts \<open>loadStatus\<close>, whose
  part after the \<open>await\<close> is \<open>loadStatus_done\<close>.
\<close>

definition session_effect :: "header \<Rightarrow> header" where
  "session_effect s =
     (if \<not> has_user s then
        s\<lparr>githubConnection := disconnected,
          selection := None,
          statusLoading := False,
          githubConnectionInitialized := True\<rparr>
      else fetchGitHubStatus_begin s)"

definition loadStatus_done :: "GitHubStatusResponse fetched \<Rightarrow> bool \<Rightarrow> header \<Rightarrow> header" where
  "loadStatus_done answer isMounted s =
     (case fetchGitHubStatus_done answer s of
        (s', status) \<Rightarrow>
          if \<not> isMounted then s'
          else if \<not> status_connected status then s'\<lparr>selection := None\<rparr>
          else s')"

definition handleOwnerChange :: "string \<Rightarrow> header \<Rightarrow> header" where
  "handleOwnerChange new_owner s =
     (if new_owner = [] then s\<lparr>selection := None\<rparr>
      else
        s\<lparr>selection :=
             Some \<lparr>owner = new_owner,
                   repo = [],
                   branch = (case selection s of None \<Rightarrow> ''main'' | Some prev \<Rightarrow> branch prev)\<rparr>,
          pushState := idle\<rparr>)"

definition handleRepoChange :: "string \<Rightarrow> header \<Rightarrow> header" where
  "handleRepoChange new_repo s =
     (if new_repo = [] then
        s\<lparr>selection :=
             (case selection s of None \<Rightarrow> None | Some prev \<Rightarrow> Some (prev\<lparr>repo := []\<rparr>))\<rparr>
      else
        s\<lparr>selection :=
             (case selection s of
                None \<Rightarrow> None
              | Some prev \<Rightarrow> if owner prev = [] then Some prev else Some (prev\<lparr>repo := new_repo\<rparr>)),
          pushState := idle\<rparr>)"

definition handleBranchInputChange :: "string \<Rightarrow> header \<Rightarrow> header" where
  "handleBranchInputChange target_value s =
     (let v = (if target_value = [] then ''main'' else target_value)
      in s\<lparr>branchInput := v,
           pushState := idle,
           selection :=
             (case selection s of None \<Rightarrow> None | Some prev \<Rightarrow> Some (prev\<lparr>branch := v\<rparr>))\<rparr>)"

text \<open>The \<open>onChange\<close> of the commit message input.\<close>

definition handleCommitMessageChange :: "string \<Rightarrow> header \<Rightarrow> header" where
  "handleCommitMessageChange target_value s =
     s\<lparr>commitMessage := target_value, pushState := idle\<rparr>"

text \<open>
  \<open>handleSignOut\<close> from the answer on. It gives the address the page moves to, if it
  does; when the sign-out fails it alerts and changes nothing.
\<close>

definition handleSignOut_done :: "signout_data fetched \<Rightarrow> header \<Rightarrow> header \<times> string option" where
  "handleSignOut_done answer s =
     (case answer of
        Data d \<Rightarrow>
          (s\<lparr>selection := None, githubConnection := disconnected\<rparr>,
           Some (case signout_url d of None \<Rightarrow> ''/'' | Some u \<Rightarrow> if u = [] then ''/'' else u))
      | _ \<Rightarrow> (s, None))"

text \<open>
  \<open>String.prototype.trim\<close> on the white space of ASCII, and \<open>Array.prototype.join\<close>.
  Characters beyond ASCII are written as their UTF-8 bytes.
\<close>

definition is_space :: "char \<Rightarrow> bool" where
  "is_space c = (c \<in> {CHR '' '', CHR 0x09, CHR 0x0A, CHR 0x0B, CHR 0x0C, CHR 0x0D})"

definition trim :: "string \<Rightarrow> string" where
  "trim s = rev (dropWhile is_space (rev (dropWhile is_space s)))"

fun join :: "string \<Rightarrow> string list \<Rightarrow> string" where
  "join sep [] = []"
| "join sep [x] = x"
| "join sep (x # y # ys) = x @ sep @ join sep (y # ys)"

definition no_changes_message :: string where
  "no_changes_message =
     ''No changes detected '' @ [CHR 0xE2, CHR 0x80, CHR 0x93] @ '' repository already up to date.''"

definition bullet :: string where
  "bullet = '' '' @ [CHR 0xE2, CHR 0x80, CHR 0xA2] @ '' ''"

text \<open>
  \<open>handlePushToGitHub\<close>: up to the \<open>await\<close>, with the body of the request it sends (none
  when it returns at once), and from the answer on.
\<close>

definition handlePushToGitHub_begin :: "header \<Rightarrow> header \<times> push_request option" where
  "handlePushToGitHub_begin s =
     (case selection s of
        None \<Rightarrow> (s, None)
      | Some sel \<Rightarrow>
          if owner sel = [] \<or> repo sel = [] then (s, None)
          else
            (s\<lparr>pushState := \<lparr>push_status = Loading, push_message = None\<rparr>\<rparr>,
             Some \<lparr>push_owner = owner sel,
                   push_repo = repo sel,
                   push_branch = (if branchInput s = [] then ''main'' else branchInput s),
                   push_commitMessage =
                     (if trim (commitMessage s) = [] then ''Sync from Shopify Data Generator''
                      else trim (commitMessage s))\<rparr>))"

definition handlePushToGitHub_done :: "push_outcome \<Rightarrow> header \<Rightarrow> header" where
  "handlePushToGitHub_done outcome s =
     (case outcome of
        PushRejected err \<Rightarrow>
          s\<lparr>pushState :=
               \<lparr>push_status = Failed,
                push_message = Some (caught_message ''Failed to push changes to GitHub'' err)\<rparr>\<rparr>
      | PushResponse ok d \<Rightarrow>
          if \<not> ok then
            s\<lparr>pushState :=
                 \<lparr>push_status = Failed,
                  push_message =
                    Some (string_or (data_error d) ''Failed to push changes to GitHub'')\<rparr>\<rparr>
          else if data_noChanges d then
            s\<lparr>pushState := \<lparr>push_status = Success, push_message = Some no_changes_message\<rparr>\<rparr>
          else
            let summaryParts =
                  (case data_branch d of
                     None \<Rightarrow> []
                   | Some b \<Rightarrow> if b = [] then [] else [''branch '' @ b]) @
                  (case data_commit d of
                     None \<Rightarrow> []
                   | Some c \<Rightarrow> if c = [] then [] else [''commit '' @ c])
            in
              s\<lparr>pushState :=
                   \<lparr>push_status = Success,
                    push_message =
                      Some (if summaryParts \<noteq> [] then ''Pushed to '' @ join bullet summaryParts
                            else ''Pushed changes to GitHub.'')\<rparr>\<rparr>)"

section \<open>The header component: its life as a sequence of events\<close>

text \<open>
  The state of the first render, from the values the atoms hold then, and the state
  after the effects of the first render have run: \<open>session\<close> is still \<open>null\<close>, so the
  session effect clears the selection.
\<close>

definition initial :: "github_selection option \<Rightarrow> github_connection \<Rightarrow> bool \<Rightarrow> header" where
  "initial sel conn ini =
     \<lparr>session = None,
      sessionLoading = True,
      statusLoading = True,
      pushState = idle,
      selection = sel,
      githubConnection = conn,
      githubConnectionInitialized = ini,
      branchInput = (case sel of None \<Rightarrow> ''main'' | Some x \<Rightarrow> branch x),
      commitMessage = ''Sync from Shopify Data Generator''\<rparr>"

text \<open>
  The effect on \<open>selectedBranch\<close>: once a render sees a new value, the branch input
  takes it.
\<close>

definition sync_branchInput :: "header \<Rightarrow> header \<Rightarrow> header" where
  "sync_branchInput s s' =
     (if selectedBranch s' \<noteq> selectedBranch s
      then s'\<lparr>branchInput := selectedBranch s'\<rparr>
      else s')"

definition mount :: "github_selection option \<Rightarrow> github_connection \<Rightarrow> bool \<Rightarrow> header" where
  "mount sel conn ini =
     sync_branchInput (initial sel conn ini)
       (session_effect (fetchSession_begin (initial sel conn ini)))"

text \<open>
  What can happen to a mounted header: an awaited answer arrives (for the status, with
  the \<open>isMounted\<close> flag of the effect that asked), or the user edits a field or
  presses the push button. Signing in and connecting GitHub only leave the page.
\<close>

datatype event =
    SessionFetched "SessionInfo fetched"
  | StatusFetched "GitHubStatusResponse fetched" bool
  | OwnerChange string
  | RepoChange string
  | BranchInputChange string
  | CommitMessageChange string
  | SignOutFetched "signout_data fetched"
  | PushClicked
  | PushFetched push_outcome

text \<open>
  The session effect runs again when \<open>session?.user\<close> is another value than before:
  always, unless there was no user and there is none.
\<close>

fun handle :: "event \<Rightarrow> header \<Rightarrow> header" where
  "handle (SessionFetched answer) s =
     (let s' = fetchSession_done answer s
      in if has_user s \<or> has_user s' then session_effect s' else s')"
| "handle (StatusFetched answer isMounted) s = loadStatus_done answer isMounted s"
| "handle (OwnerChange v) s = handleOwnerChange v s"
| "handle (RepoChange v) s = handleRepoChange v s"
| "handle (BranchInputChange v) s = handleBranchInputChange v s"
| "handle (CommitMessageChange v) s = handleCommitMessageChange v s"
| "handle (SignOutFetched answer) s = fst (handleSignOut_done answer s)"
| "handle PushClicked s = fst (handlePushToGitHub_begin s)"
| "handle (PushFetched outcome) s = handlePushToGitHub_done outcome s"

definition step :: "event \<Rightarrow> header \<Rightarrow> header" where
  "step ev s = sync_branchInput s (handle ev s)"

fun run :: "event list \<Rightarrow> header \<Rightarrow> header" where
  "run [] s = s"
| "run (ev # evs) s = run evs (step ev s)"

text \<open>A repository is selected only under an owner.\<close>

definition owner_before_repo :: "header \<Rightarrow> bool" where
  "owner_before_repo s =
     (case selection s of None \<Rightarrow> True | Some sel \<Rightarrow> repo sel \<noteq> [] \<longrightarrow> owner sel \<noteq> [])"

definition branch_named :: "header \<Rightarrow> bool" where
  "branch_named s = (selectedBranch s \<noteq> [] \<and> branchInput s \<noteq> [])"

text \<open>Which calls of a trace are \<open>sendMessage\<close>, and which answered with a stream.\<close>

fun is_sendMessage :: "sdk_event \<Rightarrow> bool" where
  "is_sendMessage (Ev_sendMessage p r) = True"
| "is_sendMessage ev = False"

fun returned_stream :: "sdk_event \<Rightarrow> bool" where
  "returned_stream (Ev_create p r) = (r = Inr ReadableStream)"
| "returned_stream (Ev_sendMessage p r) = (r = Inr ReadableStream)"
| "returned_stream ev = False"

fun arrived :: "'a fetched \<Rightarrow> bool" where
  "arrived (Data d) = True"
| "arrived other = False"

section \<open>Worked inputs\<close>

text \<open>
  A configured environment whose SDK answers every read with one chat holding one
  message and every write with a stream, the same environment without the key, and
  requests built from a query string or from what \<open>request.json()\<close> gives.
\<close>

definition example_message :: sdk_message where
  "example_message =
     \<lparr>message_id = ''m1'', message_role = ''user'', message_content = ''Build a shop'',
      message_createdAt = ''2025-01-01T00:00:00.000Z'',
      message_rest = [(''object'', JStr ''message'')]\<rparr>"

definition example_chat :: sdk_chat where
  "example_chat =
     \<lparr>chat_id = ''abc'', chat_webUrl = ''https://v0.dev/chat/abc'',
      chat_apiUrl = ''https://api.v0.dev/v1/chats/abc'', chat_shareable = True,
      chat_privacy = ''private'', chat_latestVersion = None\<rparr>"

definition example_found :: sdk_messages_response where
  "example_found = \<lparr>response_data = Some [example_message]\<rparr>"

definition example_env :: env where
  "example_env =
     \<lparr>V0_API_KEY = Some ''v0-key'',
      getById = (\<lambda>chatId. Inr example_chat),
      findMessages = (\<lambda>chatId limit. Inr example_found),
      create = (\<lambda>p. Inr ReadableStream),
      sendMessage = (\<lambda>p. Inr ReadableStream)\<rparr>"

definition unconfigured_env :: env where
  "unconfigured_env = example_env\<lparr>V0_API_KEY := None\<rparr>"

definition get_request :: "(string \<times> string) list \<Rightarrow> request" where
  "get_request query = \<lparr>searchParams = query, json_body = Inl (Error ''Unexpected end of JSON input'')\<rparr>"

definition post_request :: "thrown + json \<Rightarrow> request" where
  "post_request parsed = \<lparr>searchParams = [], json_body = parsed\<rparr>"

text \<open>The message V8 gives \<open>JSON.parse\<close> of the text \<open>V0_API_KEY\<close>.\<close>

definition unparsable_message :: string where
  \<open>unparsable_message = ''Unexpected token 'V', "V0_API_KEY" is not valid JSON''\<close>

text \<open>
  A header that has just mounted, the events that take it to a selected repository, and
  those that go on to a finished push.
\<close>

definition fresh :: header where
  "fresh = mount None disconnected False"

definition example_session :: SessionInfo where
  "example_session =
     \<lparr>user = Some \<lparr>user_id = ''1'', user_username = ''octo'', user_email = None,
                   user_name = None, user_avatar = None\<rparr>,
      authProvider = Some Vercel\<rparr>"

definition example_status :: GitHubStatusResponse where
  "example_status =
     \<lparr>status_connected = True, status_username = Some ''octo'', status_connectedAt = None\<rparr>"

definition to_selected :: "event list" where
  "to_selected =
     [SessionFetched (Data example_session), StatusFetched (Data example_status) True,
      OwnerChange ''octo'', RepoChange ''site'']"

definition to_pushed :: "event list" where
  "to_pushed =
     to_selected @
     [PushClicked,
      PushFetched (PushResponse True
        \<lparr>data_error = None, data_noChanges = True, data_branch = None, data_commit = None\<rparr>)]"

text \<open>
  The header with a repository selected, the same header at the moment its session is
  lost (before the session effect has run), and with an emptied branch input.
\<close>

definition selected :: header where
  "selected = run to_selected fresh"

definition session_lost :: header where
  "session_lost = fetchSession_done (NotOk 401) selected"

definition unnamed_branch :: header where
  "unnamed_branch = selected\<lparr>branchInput := []\<rparr>"

definition pushed :: header where
  "pushed = run to_pushed fresh"

section \<open>Facts about the chat route\<close>

lemmas route_defs =
  GET_def GET_try_def POST_def POST_try_def fetchChatDetail_def getV0Client_def and_then_def
  call_getById_def call_findMessages_def call_create_def call_sendMessage_def
  NextResponse_json_def NextResponse_json_status_def error_body_def on_catch_def
  caught_message_def caught_status_def key_configured_def or_else_def Let_def

lemmas example_defs =
  example_env_def unconfigured_env_def get_request_def post_request_def example_chat_def
  example_found_def example_message_def

lemma and_then_Inl: "and_then (Inl err, t) f = (Inl err, t)"
  by (simp add: and_then_def)

lemma and_then_Inr: "and_then (Inr a, t) f = (fst (f a), t @ snd (f a))"
  by (simp add: and_then_def split: prod.splits)

lemma snd_and_then:
  "snd (and_then m f) = (case fst m of Inl err \<Rightarrow> snd m | Inr a \<Rightarrow> snd m @ snd (f a))"
  by (cases m) (auto simp: and_then_def split: sum.splits prod.splits)

lemma fst_and_then:
  "fst (and_then m f) = (case fst m of Inl err \<Rightarrow> Inl err | Inr a \<Rightarrow> fst (f a))"
  by (cases m) (auto simp: and_then_def split: sum.splits prod.splits)

text \<open>\<open>js_includes\<close> is the contiguous-sublist relation of the library.\<close>

lemma js_includes_sublist: "js_includes s sub \<longleftrightarrow> sublist sub s"
  by (induction s) (auto simp: sublist_Cons_right)

lemma getV0Client_configured:
  "V0_API_KEY e = Some apiKey \<Longrightarrow> apiKey \<noteq> [] \<Longrightarrow>
     getV0Client e = (Inr apiKey, [Ev_createClient apiKey])"
  by (simp add: getV0Client_def)

lemma getV0Client_missing:
  "\<not> key_configured e \<Longrightarrow> getV0Client e = (Inl (Error missing_key_message), [])"
  by (auto simp: getV0Client_def key_configured_def split: option.splits)

lemma key_configuredD: "key_configured e \<Longrightarrow> \<exists>k. V0_API_KEY e = Some k \<and> k \<noteq> []"
  by (auto simp: key_configured_def split: option.splits)

lemma fetchChatDetail_with_messages:
  assumes "V0_API_KEY e = Some apiKey" "apiKey \<noteq> []"
    and "getById e chatId = Inr chat" "findMessages e chatId 50 = Inr found"
  shows "fetchChatDetail e chatId True =
    (Inr \<lparr>detail_id = chat_id chat, webUrl = chat_webUrl chat, apiUrl = chat_apiUrl chat,
          shareable = chat_shareable chat, privacy = chat_privacy chat,
          latestVersion = map_option copy_version (chat_latestVersion chat),
          messages = Some (case response_data found of
                             None \<Rightarrow> [] | Some ms \<Rightarrow> map copy_message ms)\<rparr>,
     [Ev_createClient apiKey, Ev_getById chatId (Inr chat),
      Ev_findMessages chatId 50 (Inr found)])"
  using assms
  by (simp add: fetchChatDetail_def getV0Client_configured and_then_Inr call_getById_def
      call_findMessages_def Let_def)

text \<open>\<open>fetchChatDetail\<close> only reads: no stream, no \<open>sendMessage\<close>, no \<open>create\<close>.\<close>

lemma fetchChatDetail_trace:
  "\<not> list_ex returned_stream (snd (fetchChatDetail e chatId b)) \<and>
   \<not> list_ex is_sendMessage (snd (fetchChatDetail e chatId b)) \<and>
   (\<forall>p r. Ev_create p r \<notin> set (snd (fetchChatDetail e chatId b)))"
proof (cases "key_configured e")
  case False
  then show ?thesis
    by (simp add: fetchChatDetail_def getV0Client_missing and_then_Inl)
next
  case True
  then obtain k where k: "V0_API_KEY e = Some k" "k \<noteq> []"
    by (auto dest: key_configuredD)
  show ?thesis
  proof (cases "getById e chatId")
    case (Inl err)
    then show ?thesis using k
      by (simp add: fetchChatDetail_def getV0Client_configured and_then_Inr and_then_Inl
          call_getById_def)
  next
    case (Inr chat)
    then show ?thesis using k
      by (cases "findMessages e chatId 50")
         (simp_all add: fetchChatDetail_def getV0Client_configured and_then_Inr and_then_Inl
          call_getById_def call_findMessages_def Let_def)
  qed
qed

lemma snd_POST: "snd (POST e req) = snd (POST_try e req)"
  by (cases "POST_try e req") (auto simp: POST_def split: sum.splits)

lemma fst_POST_returned: "fst (POST_try e req) = Inr res \<Longrightarrow> fst (POST e req) = res"
  by (cases "POST_try e req") (auto simp: POST_def)

text \<open>The calls of a \<open>create\<close> request and of a \<open>send\<close> request.\<close>

lemma POST_try_create:
  assumes "json_body req = Inr body" "property body ''action'' = Some (JStr ''create'')"
  shows "snd (POST_try e req) =
     (case V0_API_KEY e of
        None \<Rightarrow> []
      | Some k \<Rightarrow>
          if k = [] then []
          else
            (let p = \<lparr>create_message = or_else (property body ''message'') (JStr ''Hello!''),
                      create_system = or_else (property body ''system'')
                         (JStr ''You are a helpful coding assistant.''),
                      create_responseMode = ''sync''\<rparr>
             in Ev_createClient k # Ev_create p (create e p) #
                (case create e p of
                   Inr (ChatReply c) \<Rightarrow> snd (fetchChatDetail e (chat_id c) False)
                 | _ \<Rightarrow> [])))"
proof -
  have "body \<noteq> JNull" using assms(2) by auto
  with assms show ?thesis
    by (simp add: POST_try_def Let_def snd_and_then getV0Client_def call_create_def
        split: option.splits sum.splits sdk_reply.splits)
qed

lemma POST_try_create_stream:
  assumes "json_body req = Inr body" "property body ''action'' = Some (JStr ''create'')"
    and "V0_API_KEY e = Some k" "k \<noteq> []"
    and "create e \<lparr>create_message = or_else (property body ''message'') (JStr ''Hello!''),
                   create_system = or_else (property body ''system'')
                      (JStr ''You are a helpful coding assistant.''),
                   create_responseMode = ''sync''\<rparr> = Inr ReadableStream"
  shows "fst (POST_try e req) = Inr \<lparr>res_status = 400,
      res_body = JObj [(''error'', JStr
         ''Streaming response not supported. Please use standard chat creation.'')]\<rparr>"
proof -
  have "body \<noteq> JNull" using assms(2) by auto
  with assms show ?thesis
    by (simp add: POST_try_def Let_def fst_and_then getV0Client_def call_create_def
        NextResponse_json_status_def error_body_def)
qed

lemma POST_try_send:
  assumes "json_body req = Inr body" "property body ''action'' = Some (JStr ''send'')"
  shows "snd (POST_try e req) =
     (case V0_API_KEY e of
        None \<Rightarrow> []
      | Some k \<Rightarrow>
          if k = [] then []
          else Ev_createClient k #
            (case (property body ''chatId'', property body ''message'') of
               (Some c, Some m) \<Rightarrow>
                  if \<not> truthy (Some c) \<or> \<not> truthy (Some m) then []
                  else [Ev_sendMessage
                          \<lparr>send_chatId = c, send_message = m, send_responseMode = ''sync''\<rparr>
                          (sendMessage e
                            \<lparr>send_chatId = c, send_message = m, send_responseMode = ''sync''\<rparr>)]
             | _ \<Rightarrow> []))"
proof -
  have "body \<noteq> JNull" using assms(2) by auto
  with assms show ?thesis
    by (simp add: POST_try_def Let_def snd_and_then getV0Client_def call_sendMessage_def
        split: option.splits sum.splits sdk_reply.splits)
qed

lemma POST_try_send_stream:
  assumes "json_body req = Inr body" "property body ''action'' = Some (JStr ''send'')"
    and "V0_API_KEY e = Some k" "k \<noteq> []"
    and "property body ''chatId'' = Some c" "truthy (Some c)"
    and "property body ''message'' = Some m" "truthy (Some m)"
    and "sendMessage e \<lparr>send_chatId = c, send_message = m, send_responseMode = ''sync''\<rparr> =
           Inr ReadableStream"
  shows "fst (POST_try e req) = Inr \<lparr>res_status = 400,
      res_body = JObj [(''error'', JStr
         ''Streaming response not supported. Please use standard message sending.'')]\<rparr>"
proof -
  have "body \<noteq> JNull" using assms(2) by auto
  with assms show ?thesis
    by (simp add: POST_try_def Let_def fst_and_then getV0Client_def call_sendMessage_def
        NextResponse_json_status_def error_body_def)
qed

section \<open>Claims about the chat route\<close>

text \<open>
  C1, as amended. A GET request whose \<open>chatId\<close> parameter is present and not empty,
  handled with \<open>V0_API_KEY\<close> configured and with \<open>getById\<close> and \<open>findMessages\<close>
  answering, returns status 200 and an object with exactly the fields \<open>chatId\<close>,
  \<open>webUrl\<close>, \<open>apiUrl\<close>, \<open>shareable\<close>, \<open>privacy\<close> and \<open>messages\<close>. The messages
  are those of \<open>findMessages\<close> called with limit 50, each reduced to \<open>id\<close>, \<open>role\<close>,
  \<open>content\<close> and \<open>createdAt\<close>, and the empty array when the answer has no data.
\<close>

theorem GET_returns_flattened_chat:
  assumes "map_of (searchParams req) ''chatId'' = Some chatId" "chatId \<noteq> []"
    and "V0_API_KEY e = Some apiKey" "apiKey \<noteq> []"
    and "getById e chatId = Inr chat" "findMessages e chatId 50 = Inr found"
  shows "GET e req =
    (\<lparr>res_status = 200,
      res_body = JObj
        [(''chatId'', JStr (chat_id chat)),
         (''webUrl'', JStr (chat_webUrl chat)),
         (''apiUrl'', JStr (chat_apiUrl chat)),
         (''shareable'', JBool (chat_shareable chat)),
         (''privacy'', JStr (chat_privacy chat)),
         (''messages'', JArr (map (\<lambda>m. JObj
            [(''id'', JStr (message_id m)), (''role'', JStr (message_role m)),
             (''content'', JStr (message_content m)),
             (''createdAt'', JStr (message_createdAt m))])
            (case response_data found of None \<Rightarrow> [] | Some ms \<Rightarrow> ms)))]\<rparr>,
     [Ev_createClient apiKey, Ev_getById chatId (Inr chat),
      Ev_findMessages chatId 50 (Inr found)])"
  using assms(1,2) fetchChatDetail_with_messages[OF assms(3-6)]
  by (simp add: GET_def GET_try_def and_then_Inr NextResponse_json_def json_of_message_def
      copy_message_def comp_def split: option.splits)

text \<open>The theorem at \<open>?chatId=abc\<close> in the example environment.\<close>

theorem GET_returns_flattened_chat_witness:
  "map_of (searchParams (get_request [(''chatId'', ''abc'')])) ''chatId'' = Some ''abc'' \<and>
   V0_API_KEY example_env = Some ''v0-key'' \<and>
   getById example_env ''abc'' = Inr example_chat \<and>
   findMessages example_env ''abc'' 50 = Inr example_found \<and>
   GET example_env (get_request [(''chatId'', ''abc'')]) =
     (\<lparr>res_status = 200,
       res_body = JObj
         [(''chatId'', JStr ''abc''),
          (''webUrl'', JStr ''https://v0.dev/chat/abc''),
          (''apiUrl'', JStr ''https://api.v0.dev/v1/chats/abc''),
          (''shareable'', JBool True),
          (''privacy'', JStr ''private''),
          (''messages'', JArr [JObj
             [(''id'', JStr ''m1''), (''role'', JStr ''user''),
              (''content'', JStr ''Build a shop''),
              (''createdAt'', JStr ''2025-01-01T00:00:00.000Z'')]])]\<rparr>,
      [Ev_createClient ''v0-key'', Ev_getById ''abc'' (Inr example_chat),
       Ev_findMessages ''abc'' 50 (Inr example_found)])"
proof -
  have a: "map_of (searchParams (get_request [(''chatId'', ''abc'')])) ''chatId'' = Some ''abc''"
    by (simp add: get_request_def)
  have b: "''abc'' \<noteq> []" by simp
  have c: "V0_API_KEY example_env = Some ''v0-key''" by (simp add: example_env_def)
  have d: "''v0-key'' \<noteq> []" by simp
  have f: "getById example_env ''abc'' = Inr example_chat" by (simp add: example_env_def)
  have g: "findMessages example_env ''abc'' 50 = Inr example_found"
    by (simp add: example_env_def)
  from GET_returns_flattened_chat[OF a b c d f g] a c f g show ?thesis
    by (simp add: example_chat_def example_found_def example_message_def)
qed

text \<open>
  C1 as stated fails at \<open>?chatId=\<close>: the request carries the parameter and the SDK
  would answer, but the handler takes the empty value for a missing one.
\<close>

theorem GET_empty_chatId_counterexample:
  "map_of (searchParams (get_request [(''chatId'', [])])) ''chatId'' = Some [] \<and>
   key_configured example_env \<and>
   getById example_env [] = Inr example_chat \<and>
   findMessages example_env [] 50 = Inr example_found \<and>
   GET example_env (get_request [(''chatId'', [])]) =
     (\<lparr>res_status = 400,
       res_body = JObj [(''error'', JStr ''chatId query parameter is required'')]\<rparr>, [])"
  by (simp add: route_defs example_defs)

text \<open>
  C2, as amended. Whatever the \<open>try\<close> block of GET or of POST throws is answered with
  the body \<open>{error}\<close> holding the message of the error (or the handler's fallback text
  for a thrown value that is not an \<open>Error\<close>), with status 500 exactly when that
  message contains the text \<open>V0_API_KEY\<close> and 400 otherwise. The error thrown for a
  missing key is such a message, so it gets 500. Both handlers are total: nothing is
  thrown past them.
\<close>

theorem caught_exceptions_become_error_responses:
  "(GET_try e req = (Inl err, t) \<longrightarrow>
      GET e req =
        (\<lparr>res_status =
            (if js_includes (caught_message ''Failed to fetch chat details'' err) ''V0_API_KEY''
             then 500 else 400),
          res_body =
            JObj [(''error'', JStr (caught_message ''Failed to fetch chat details'' err))]\<rparr>,
         t)) \<and>
   (POST_try e' req' = (Inl err', t') \<longrightarrow>
      POST e' req' =
        (\<lparr>res_status =
            (if js_includes (caught_message ''Failed to process chat request'' err') ''V0_API_KEY''
             then 500 else 400),
          res_body =
            JObj [(''error'', JStr (caught_message ''Failed to process chat request'' err'))]\<rparr>,
         t')) \<and>
   (\<not> key_configured e'' \<longrightarrow> getV0Client e'' = (Inl (Error missing_key_message), [])) \<and>
   js_includes (caught_message fallback (Error missing_key_message)) ''V0_API_KEY''"
  by (simp add: GET_def POST_def on_catch_def caught_status_def NextResponse_json_status_def
      error_body_def caught_message_def missing_key_message_def getV0Client_missing)

text \<open>
  The theorem at a GET without the key (500) and at a POST whose body does not parse
  (400).
\<close>

theorem caught_exceptions_become_error_responses_witness:
  "GET_try unconfigured_env (get_request [(''chatId'', ''abc'')]) =
     (Inl (Error missing_key_message), []) \<and>
   GET unconfigured_env (get_request [(''chatId'', ''abc'')]) =
     (\<lparr>res_status = 500, res_body = JObj [(''error'', JStr missing_key_message)]\<rparr>, []) \<and>
   POST_try example_env (post_request (Inl (Error ''Unexpected end of JSON input''))) =
     (Inl (Error ''Unexpected end of JSON input''), []) \<and>
   POST example_env (post_request (Inl (Error ''Unexpected end of JSON input''))) =
     (\<lparr>res_status = 400,
       res_body = JObj [(''error'', JStr ''Unexpected end of JSON input'')]\<rparr>, []) \<and>
   \<not> key_configured unconfigured_env \<and>
   getV0Client unconfigured_env = (Inl (Error missing_key_message), [])"
proof -
  have a: "GET_try unconfigured_env (get_request [(''chatId'', ''abc'')]) =
      (Inl (Error missing_key_message), [])"
    by (simp add: GET_try_def fetchChatDetail_def getV0Client_def and_then_def example_defs)
  have b: "POST_try example_env (post_request (Inl (Error ''Unexpected end of JSON input''))) =
      (Inl (Error ''Unexpected end of JSON input''), [])"
    by (simp add: POST_try_def post_request_def)
  have c: "\<not> key_configured unconfigured_env"
    by (simp add: key_configured_def example_defs)
  from caught_exceptions_become_error_responses
         [of unconfigured_env "get_request [(''chatId'', ''abc'')]" "Error missing_key_message" "[]"
             example_env "post_request (Inl (Error ''Unexpected end of JSON input''))"
             "Error ''Unexpected end of JSON input''" "[]" unconfigured_env]
       a b c
  show ?thesis
    by (simp add: caught_message_def missing_key_message_def)
qed

text \<open>
  C2 as stated fails: with the key configured, a POST whose body is the text
  \<open>V0_API_KEY\<close> makes \<open>request.json()\<close> throw an error that is not the missing-key
  error, and the answer has status 500.
\<close>

theorem parse_error_gets_500_counterexample:
  "key_configured example_env \<and>
   POST_try example_env (post_request (Inl (Error unparsable_message))) =
     (Inl (Error unparsable_message), []) \<and>
   Error unparsable_message \<noteq> Error missing_key_message \<and>
   POST example_env (post_request (Inl (Error unparsable_message))) =
     (\<lparr>res_status = 500, res_body = JObj [(''error'', JStr unparsable_message)]\<rparr>, [])"
  by (simp add: route_defs example_defs unparsable_message_def missing_key_message_def)

text \<open>
  C3, as amended. For a POST with action \<open>send\<close> whose \<open>chatId\<close> or \<open>message\<close> is absent,
  empty or otherwise falsy: with \<open>V0_API_KEY\<close> configured the answer is status 400 with
  an \<open>{error}\<close> body and the only SDK call is the creation of the client; with or
  without the key, \<open>sendMessage\<close> is not called.
\<close>

theorem send_requires_chatId_and_message:
  assumes "json_body req = Inr body"
    and "property body ''action'' = Some (JStr ''send'')"
    and "\<not> truthy (property body ''chatId'') \<or> \<not> truthy (property body ''message'')"
  shows "(V0_API_KEY e = Some apiKey \<and> apiKey \<noteq> [] \<longrightarrow>
            POST e req =
              (\<lparr>res_status = 400,
                res_body =
                  JObj [(''error'', JStr ''chatId and message are required for send action'')]\<rparr>,
               [Ev_createClient apiKey])) \<and>
         \<not> list_ex is_sendMessage (snd (POST e req))"
proof -
  have nn: "body \<noteq> JNull" using assms(2) by auto
  show ?thesis
  proof (cases "key_configured e")
    case True
    then obtain k where k: "V0_API_KEY e = Some k" "k \<noteq> []"
      by (auto dest: key_configuredD)
    show ?thesis using assms nn k
      by (auto simp: POST_def POST_try_def getV0Client_configured and_then_Inr Let_def
          NextResponse_json_status_def error_body_def split: option.splits)
  next
    case False
    then have "V0_API_KEY e = Some apiKey \<Longrightarrow> apiKey = []" for apiKey
      by (auto simp: key_configured_def)
    with False show ?thesis using assms nn
      by (auto simp: POST_def POST_try_def getV0Client_missing and_then_Inl Let_def)
  qed
qed

text \<open>The theorem at \<open>{action: "send", message: "hi"}\<close> with the key configured.\<close>

theorem send_requires_chatId_and_message_witness:
  "json_body (post_request (Inr (JObj [(''action'', JStr ''send''), (''message'', JStr ''hi'')]))) =
     Inr (JObj [(''action'', JStr ''send''), (''message'', JStr ''hi'')]) \<and>
   property (JObj [(''action'', JStr ''send''), (''message'', JStr ''hi'')]) ''action'' =
     Some (JStr ''send'') \<and>
   \<not> truthy (property (JObj [(''action'', JStr ''send''), (''message'', JStr ''hi'')]) ''chatId'') \<and>
   V0_API_KEY example_env = Some ''v0-key'' \<and>
   POST example_env
      (post_request (Inr (JObj [(''action'', JStr ''send''), (''message'', JStr ''hi'')]))) =
     (\<lparr>res_status = 400,
       res_body = JObj [(''error'', JStr ''chatId and message are required for send action'')]\<rparr>,
      [Ev_createClient ''v0-key''])"
proof -
  let ?b = "JObj [(''action'', JStr ''send''), (''message'', JStr ''hi'')]"
  have a: "json_body (post_request (Inr ?b)) = Inr ?b" by (simp add: post_request_def)
  have b: "property ?b ''action'' = Some (JStr ''send'')" by simp
  have c: "\<not> truthy (property ?b ''chatId'') \<or> \<not> truthy (property ?b ''message'')" by simp
  have d: "V0_API_KEY example_env = Some ''v0-key''" by (simp add: example_env_def)
  from send_requires_chatId_and_message[OF a b c, of example_env "''v0-key''"] a b d
  show ?thesis by simp
qed

text \<open>
  C3 as stated fails without the key: the same request is answered with status 500,
  because the client is built before the action is looked at.
\<close>

theorem send_without_key_counterexample:
  "property (JObj [(''action'', JStr ''send''), (''message'', JStr ''hi'')]) ''action'' =
     Some (JStr ''send'') \<and>
   \<not> truthy (property (JObj [(''action'', JStr ''send''), (''message'', JStr ''hi'')]) ''chatId'') \<and>
   POST unconfigured_env
      (post_request (Inr (JObj [(''action'', JStr ''send''), (''message'', JStr ''hi'')]))) =
     (\<lparr>res_status = 500, res_body = JObj [(''error'', JStr missing_key_message)]\<rparr>, [])"
  by (simp add: route_defs example_defs missing_key_message_def)

text \<open>
  C4. A GET request whose query string has no \<open>chatId\<close> parameter is answered with
  status 400 and an \<open>{error}\<close> body, and no SDK call is made, not even the creation of
  the client.
\<close>

theorem GET_without_chatId:
  "map_of (searchParams req) ''chatId'' = None \<Longrightarrow>
     GET e req =
       (\<lparr>res_status = 400,
         res_body = JObj [(''error'', JStr ''chatId query parameter is required'')]\<rparr>, [])"
  by (simp add: GET_def GET_try_def NextResponse_json_status_def error_body_def)

text \<open>The theorem at \<open>?id=abc\<close>, in the example environment.\<close>

theorem GET_without_chatId_witness:
  "map_of (searchParams (get_request [(''id'', ''abc'')])) ''chatId'' = None \<and>
   GET example_env (get_request [(''id'', ''abc'')]) =
     (\<lparr>res_status = 400,
       res_body = JObj [(''error'', JStr ''chatId query parameter is required'')]\<rparr>, [])"
proof -
  have a: "map_of (searchParams (get_request [(''id'', ''abc'')])) ''chatId'' = None"
    by (simp add: get_request_def)
  from GET_without_chatId[OF a, of example_env] a show ?thesis by simp
qed

text \<open>
  C5. For a POST with action \<open>create\<close> or \<open>send\<close>, if an SDK call of the request
  answers with a stream, the handler answers with status 400 and an \<open>{error}\<close> body
  saying that streaming responses are not supported (one wording per action).
\<close>

theorem streaming_reply_is_rejected:
  assumes "json_body req = Inr body"
    and "property body ''action'' = Some (JStr ''create'') \<or>
         property body ''action'' = Some (JStr ''send'')"
    and "list_ex returned_stream (snd (POST e req))"
  shows "fst (POST e req) =
     \<lparr>res_status = 400,
      res_body = JObj [(''error'', JStr
        (if property body ''action'' = Some (JStr ''create'')
         then ''Streaming response not supported. Please use standard chat creation.''
         else ''Streaming response not supported. Please use standard message sending.''))]\<rparr>"
  using assms(2)
proof
  assume a: "property body ''action'' = Some (JStr ''create'')"
  from assms(3) obtain k where
    "V0_API_KEY e = Some k" "k \<noteq> []"
    "create e \<lparr>create_message = or_else (property body ''message'') (JStr ''Hello!''),
               create_system = or_else (property body ''system'')
                  (JStr ''You are a helpful coding assistant.''),
               create_responseMode = ''sync''\<rparr> = Inr ReadableStream"
    using fetchChatDetail_trace
    by (auto simp: snd_POST POST_try_create[OF assms(1) a] Let_def
          split: option.splits if_splits sum.splits sdk_reply.splits)
  then have "fst (POST_try e req) = Inr \<lparr>res_status = 400,
      res_body = JObj [(''error'', JStr
         ''Streaming response not supported. Please use standard chat creation.'')]\<rparr>"
    by (rule POST_try_create_stream[OF assms(1) a])
  then show ?thesis using a by (simp add: fst_POST_returned)
next
  assume a: "property body ''action'' = Some (JStr ''send'')"
  from assms(3) obtain k c m where
    "V0_API_KEY e = Some k" "k \<noteq> []"
    "property body ''chatId'' = Some c" "truthy (Some c)"
    "property body ''message'' = Some m" "truthy (Some m)"
    "sendMessage e \<lparr>send_chatId = c, send_message = m, send_responseMode = ''sync''\<rparr> =
       Inr ReadableStream"
    by (auto simp: snd_POST POST_try_send[OF assms(1) a] split: option.splits if_splits)
  then have "fst (POST_try e req) = Inr \<lparr>res_status = 400,
      res_body = JObj [(''error'', JStr
         ''Streaming response not supported. Please use standard message sending.'')]\<rparr>"
    by (rule POST_try_send_stream[OF assms(1) a])
  then show ?thesis using a by (simp add: fst_POST_returned)
qed

text \<open>
  The theorem at \<open>{action: "create"}\<close> and at
  \<open>{action: "send", chatId: "abc", message: "hi"}\<close>, in the example environment, whose
  SDK answers both with a stream.
\<close>

theorem streaming_reply_is_rejected_witness:
  "property (JObj [(''action'', JStr ''create'')]) ''action'' = Some (JStr ''create'') \<and>
   list_ex returned_stream
     (snd (POST example_env (post_request (Inr (JObj [(''action'', JStr ''create'')]))))) \<and>
   fst (POST example_env (post_request (Inr (JObj [(''action'', JStr ''create'')])))) =
     \<lparr>res_status = 400,
      res_body = JObj [(''error'', JStr
        ''Streaming response not supported. Please use standard chat creation.'')]\<rparr> \<and>
   property (JObj [(''action'', JStr ''send''), (''chatId'', JStr ''abc''), (''message'', JStr ''hi'')])
     ''action'' = Some (JStr ''send'') \<and>
   list_ex returned_stream
     (snd (POST example_env (post_request (Inr
        (JObj [(''action'', JStr ''send''), (''chatId'', JStr ''abc''), (''message'', JStr ''hi'')]))))) \<and>
   fst (POST example_env (post_request (Inr
        (JObj [(''action'', JStr ''send''), (''chatId'', JStr ''abc''), (''message'', JStr ''hi'')])))) =
     \<lparr>res_status = 400,
      res_body = JObj [(''error'', JStr
        ''Streaming response not supported. Please use standard message sending.'')]\<rparr>"
proof -
  let ?c = "JObj [(''action'', JStr ''create'')]"
  let ?s = "JObj [(''action'', JStr ''send''), (''chatId'', JStr ''abc''), (''message'', JStr ''hi'')]"
  have c1: "json_body (post_request (Inr ?c)) = Inr ?c" by (simp add: post_request_def)
  have c2: "property ?c ''action'' = Some (JStr ''create'') \<or>
            property ?c ''action'' = Some (JStr ''send'')" by simp
  have c3: "list_ex returned_stream (snd (POST example_env (post_request (Inr ?c))))"
    by (simp add: route_defs example_defs)
  have s1: "json_body (post_request (Inr ?s)) = Inr ?s" by (simp add: post_request_def)
  have s2: "property ?s ''action'' = Some (JStr ''create'') \<or>
            property ?s ''action'' = Some (JStr ''send'')" by simp
  have s3: "list_ex returned_stream (snd (POST example_env (post_request (Inr ?s))))"
    by (simp add: route_defs example_defs)
  from streaming_reply_is_rejected[OF c1 c2 c3] streaming_reply_is_rejected[OF s1 s2 s3] c3 s3
  show ?thesis by simp
qed




section \<open>Facts about the header component\<close>

lemmas header_defs =
  mount_def initial_def step_def sync_branchInput_def selectedBranch_def selectedOwner_def
  selectedRepo_def session_effect_def fetchSession_begin_def has_user_def fetchSession_done_def
  loadStatus_done_def fetchGitHubStatus_done_def fetchGitHubStatus_begin_def
  handleOwnerChange_def handleRepoChange_def handleBranchInputChange_def
  handleCommitMessageChange_def handleSignOut_done_def handlePushToGitHub_begin_def
  handlePushToGitHub_done_def disconnected_def idle_def Let_def

lemmas header_example_defs =
  selected_def session_lost_def unnamed_branch_def pushed_def to_selected_def to_pushed_def
  fresh_def example_session_def example_status_def

lemma selection_sync_branchInput [simp]: "selection (sync_branchInput s s') = selection s'"
  by (simp add: sync_branchInput_def)

lemma githubConnection_sync_branchInput [simp]:
  "githubConnection (sync_branchInput s s') = githubConnection s'"
  by (simp add: sync_branchInput_def)

lemma pushState_sync_branchInput [simp]: "pushState (sync_branchInput s s') = pushState s'"
  by (simp add: sync_branchInput_def)

text \<open>What \<open>fetchGitHubStatus\<close> returns is what it has stored.\<close>

lemma fetchGitHubStatus_done_connection:
  "connected (githubConnection (fst (fetchGitHubStatus_done answer s))) =
     status_connected (snd (fetchGitHubStatus_done answer s))"
  by (cases answer) (simp_all add: fetchGitHubStatus_done_def disconnected_def)

lemma fetchGitHubStatus_done_disconnected:
  "\<not> status_connected (snd (fetchGitHubStatus_done answer s)) \<Longrightarrow>
     selection (fst (fetchGitHubStatus_done answer s)) = None"
  by (cases answer) (simp_all add: fetchGitHubStatus_done_def)

lemma loadStatus_done_disconnected:
  "\<not> connected (githubConnection (loadStatus_done answer m s)) \<Longrightarrow>
     selection (loadStatus_done answer m s) = None"
  using fetchGitHubStatus_done_disconnected[of answer s]
    fetchGitHubStatus_done_connection[of answer s]
  by (auto simp: loadStatus_done_def split: prod.splits if_splits)

text \<open>No event takes a connected header to a disconnected one and keeps the selection.\<close>

lemma handle_disconnected:
  assumes "connected (githubConnection s)" "\<not> connected (githubConnection (handle ev s))"
  shows "selection (handle ev s) = None"
  using assms
proof (cases ev)
  case (SessionFetched answer)
  with assms show ?thesis
    by (cases answer)
      (auto simp: Let_def fetchSession_done_def session_effect_def fetchGitHubStatus_begin_def
        split: if_splits)
next
  case (StatusFetched answer m)
  with assms show ?thesis using loadStatus_done_disconnected by simp
next
  case (SignOutFetched answer)
  with assms show ?thesis by (cases answer) (simp_all add: handleSignOut_done_def)
next
  case PushClicked
  with assms show ?thesis
    by (auto simp: handlePushToGitHub_begin_def split: option.splits if_splits)
next
  case (PushFetched outcome)
  with assms show ?thesis
    by (cases outcome) (auto simp: handlePushToGitHub_done_def Let_def split: if_splits)
qed (auto simp: handleOwnerChange_def handleRepoChange_def handleBranchInputChange_def
      handleCommitMessageChange_def Let_def split: if_splits)

text \<open>Every event keeps \<open>owner_before_repo\<close>, and a mounted header has it.\<close>

lemma handle_owner_before_repo:
  assumes "owner_before_repo s"
  shows "owner_before_repo (handle ev s)"
  using assms
proof (cases ev)
  case (SessionFetched answer)
  with assms show ?thesis
    by (cases answer)
      (auto simp: owner_before_repo_def Let_def fetchSession_done_def session_effect_def
        fetchGitHubStatus_begin_def split: option.splits if_splits)
next
  case (StatusFetched answer m)
  with assms show ?thesis
    by (cases answer)
      (auto simp: owner_before_repo_def loadStatus_done_def fetchGitHubStatus_done_def
        split: option.splits if_splits)
next
  case (SignOutFetched answer)
  with assms show ?thesis
    by (cases answer) (auto simp: owner_before_repo_def handleSignOut_done_def)
next
  case PushClicked
  with assms show ?thesis
    by (auto simp: owner_before_repo_def handlePushToGitHub_begin_def
        split: option.splits if_splits)
next
  case (PushFetched outcome)
  with assms show ?thesis
    by (cases outcome)
      (auto simp: owner_before_repo_def handlePushToGitHub_done_def Let_def split: if_splits)
qed (auto simp: owner_before_repo_def handleOwnerChange_def handleRepoChange_def
      handleBranchInputChange_def handleCommitMessageChange_def Let_def
      split: option.splits if_splits)

lemma step_owner_before_repo: "owner_before_repo s \<Longrightarrow> owner_before_repo (step ev s)"
  using handle_owner_before_repo[of s ev] by (simp add: step_def owner_before_repo_def)

lemma run_owner_before_repo: "owner_before_repo s \<Longrightarrow> owner_before_repo (run evs s)"
  by (induction evs arbitrary: s) (simp_all add: step_owner_before_repo)

lemma selection_mount: "selection (mount sel conn ini) = None"
  by (simp add: mount_def initial_def session_effect_def fetchSession_begin_def has_user_def)

text \<open>Every event keeps \<open>branch_named\<close>, and a mounted header has it.\<close>

lemma handle_branch_named:
  assumes "branch_named s"
  shows "branch_named (handle ev s)"
  using assms
proof (cases ev)
  case (SessionFetched answer)
  with assms show ?thesis
    by (cases answer)
      (auto simp: branch_named_def selectedBranch_def Let_def fetchSession_done_def
        session_effect_def fetchGitHubStatus_begin_def split: option.splits if_splits)
next
  case (StatusFetched answer m)
  with assms show ?thesis
    by (cases answer)
      (auto simp: branch_named_def selectedBranch_def loadStatus_done_def
        fetchGitHubStatus_done_def split: option.splits if_splits)
next
  case (SignOutFetched answer)
  with assms show ?thesis
    by (cases answer) (auto simp: branch_named_def selectedBranch_def handleSignOut_done_def)
next
  case PushClicked
  with assms show ?thesis
    by (auto simp: branch_named_def selectedBranch_def handlePushToGitHub_begin_def
        split: option.splits if_splits)
next
  case (PushFetched outcome)
  with assms show ?thesis
    by (cases outcome)
      (auto simp: branch_named_def selectedBranch_def handlePushToGitHub_done_def Let_def
        split: if_splits)
qed (auto simp: branch_named_def selectedBranch_def handleOwnerChange_def handleRepoChange_def
      handleBranchInputChange_def handleCommitMessageChange_def Let_def
      split: option.splits if_splits)

lemma step_branch_named: "branch_named s \<Longrightarrow> branch_named (step ev s)"
  using handle_branch_named[of s ev]
  by (auto simp: step_def branch_named_def sync_branchInput_def selectedBranch_def)

lemma run_branch_named: "branch_named s \<Longrightarrow> branch_named (run evs s)"
  by (induction evs arbitrary: s) (simp_all add: step_branch_named)

lemma mount_branch_named: "branch_named (mount sel conn ini)"
  by (auto simp: branch_named_def mount_def initial_def session_effect_def
      fetchSession_begin_def has_user_def sync_branchInput_def selectedBranch_def
      split: option.splits)

text \<open>The example headers, computed.\<close>

lemma selected_eq:
  "selected =
     \<lparr>session = Some example_session, sessionLoading = False, statusLoading = False,
      pushState = idle,
      selection = Some \<lparr>owner = ''octo'', repo = ''site'', branch = ''main''\<rparr>,
      githubConnection = \<lparr>connected = True, username = Some ''octo'', connectedAt = None\<rparr>,
      githubConnectionInitialized = True, branchInput = ''main'',
      commitMessage = ''Sync from Shopify Data Generator''\<rparr>"
  by (simp add: header_defs header_example_defs)

lemma pushed_eq:
  "pushed = selected\<lparr>pushState := \<lparr>push_status = Success, push_message = Some no_changes_message\<rparr>\<rparr>"
  by (simp add: header_defs header_example_defs)

section \<open>Claims about the header component\<close>

text \<open>
  C7. Whenever the GitHub status is set to disconnected, the selection is cleared in the
  same step: when the status answer says \<open>connected = false\<close>, when the status fetch
  fails (rejected, not ok, or unreadable), when the session effect finds no user, and
  when a sign-out completes. More generally, no event takes a connected header to a
  disconnected one and leaves a selection.
\<close>

theorem disconnection_clears_selection:
  "(\<not> status_connected d \<longrightarrow>
      \<not> connected (githubConnection (fst (fetchGitHubStatus_done (Data d) s))) \<and>
      selection (fst (fetchGitHubStatus_done (Data d) s)) = None) \<and>
   (\<not> arrived answer \<longrightarrow>
      \<not> connected (githubConnection (fst (fetchGitHubStatus_done answer s))) \<and>
      selection (fst (fetchGitHubStatus_done answer s)) = None) \<and>
   (\<not> has_user s \<longrightarrow>
      \<not> connected (githubConnection (session_effect s)) \<and>
      selection (session_effect s) = None) \<and>
   (\<not> connected (githubConnection (fst (handleSignOut_done (Data signedOut) s))) \<and>
    selection (fst (handleSignOut_done (Data signedOut) s)) = None) \<and>
   (connected (githubConnection s) \<and> \<not> connected (githubConnection (step ev s)) \<longrightarrow>
      selection (step ev s) = None)"
proof -
  have "\<not> arrived answer \<Longrightarrow> fetchGitHubStatus_done answer s =
     (s\<lparr>githubConnection := disconnected, selection := None, statusLoading := False,
         githubConnectionInitialized := True\<rparr>,
      \<lparr>status_connected = False, status_username = None, status_connectedAt = None\<rparr>)"
    by (cases answer) (simp_all add: fetchGitHubStatus_done_def)
  moreover
  have "connected (githubConnection s) \<and> \<not> connected (githubConnection (step ev s)) \<longrightarrow>
      selection (step ev s) = None"
    using handle_disconnected[of s ev] by (simp add: step_def)
  ultimately show ?thesis
    by (simp add: fetchGitHubStatus_done_def session_effect_def handleSignOut_done_def
      disconnected_def)
qed

text \<open>
  The theorem at the header that has a repository selected and has just lost its
  session, with a status answer that says disconnected, a status fetch answered 500,
  and a completed sign-out.
\<close>

theorem disconnection_clears_selection_witness:
  "selection session_lost = Some \<lparr>owner = ''octo'', repo = ''site'', branch = ''main''\<rparr> \<and>
   \<not> status_connected
       \<lparr>status_connected = False, status_username = None, status_connectedAt = None\<rparr> \<and>
   selection (fst (fetchGitHubStatus_done
       (Data \<lparr>status_connected = False, status_username = None, status_connectedAt = None\<rparr>)
       session_lost)) = None \<and>
   \<not> arrived (NotOk 500 :: GitHubStatusResponse fetched) \<and>
   selection (fst (fetchGitHubStatus_done (NotOk 500) session_lost)) = None \<and>
   \<not> has_user session_lost \<and>
   selection (session_effect session_lost) = None \<and>
   selection (fst (handleSignOut_done (Data \<lparr>signout_url = None\<rparr>) session_lost)) = None \<and>
   connected (githubConnection session_lost) \<and>
   \<not> connected (githubConnection (step (StatusFetched (NotOk 500) True) session_lost)) \<and>
   selection (step (StatusFetched (NotOk 500) True) session_lost) = None"
proof -
  let ?d = "\<lparr>status_connected = False, status_username = None, status_connectedAt = None\<rparr>"
  have a: "selection session_lost = Some \<lparr>owner = ''octo'', repo = ''site'', branch = ''main''\<rparr>"
    by (simp add: session_lost_def selected_eq fetchSession_done_def)
  have b: "\<not> status_connected ?d" by simp
  have c: "\<not> arrived (NotOk 500 :: GitHubStatusResponse fetched)" by simp
  have d: "\<not> has_user session_lost"
    by (simp add: session_lost_def selected_eq fetchSession_done_def has_user_def)
  have f: "connected (githubConnection session_lost)"
    by (simp add: session_lost_def selected_eq fetchSession_done_def)
  have g: "\<not> connected (githubConnection (step (StatusFetched (NotOk 500) True) session_lost))"
    by (simp add: step_def loadStatus_done_def fetchGitHubStatus_done_def disconnected_def)
  from disconnection_clears_selection
         [of ?d session_lost "NotOk 500" "\<lparr>signout_url = None\<rparr>" "StatusFetched (NotOk 500) True"]
       a b c d f g
  show ?thesis by simp
qed

text \<open>
  C8. A repository is only ever set under an owner: \<open>handleRepoChange\<close> with a
  non-empty repository leaves the selection as it is when the selection has no owner;
  after \<open>handleOwnerChange\<close> the selected repository is always the empty string; hence
  in every header reached from mounting by any events, a non-empty repository implies a
  non-empty owner.
\<close>

theorem repo_needs_owner:
  "(new_repo \<noteq> [] \<and> selectedOwner s = [] \<longrightarrow>
      selection (handleRepoChange new_repo s) = selection s) \<and>
   selectedRepo (handleOwnerChange new_owner s) = [] \<and>
   owner_before_repo (run evs (mount sel conn ini))"
proof -
  have "owner_before_repo (mount sel conn ini)"
    by (simp add: owner_before_repo_def selection_mount)
  then have "owner_before_repo (run evs (mount sel conn ini))"
    by (rule run_owner_before_repo)
  then show ?thesis
    by (auto simp: handleRepoChange_def handleOwnerChange_def selectedOwner_def selectedRepo_def
        split: option.splits)
qed

text \<open>
  The theorem at the freshly mounted header, which has no owner, and at the events that
  select \<open>octo/site\<close>.
\<close>

theorem repo_needs_owner_witness:
  "selectedOwner fresh = [] \<and>
   selection (handleRepoChange ''site'' fresh) = selection fresh \<and>
   selectedRepo (handleOwnerChange ''octo'' fresh) = [] \<and>
   selection (run to_selected (mount None disconnected False)) =
     Some \<lparr>owner = ''octo'', repo = ''site'', branch = ''main''\<rparr> \<and>
   owner_before_repo (run to_selected (mount None disconnected False))"
proof -
  have a: "''site'' \<noteq> [] \<and> selectedOwner fresh = []"
    by (simp add: fresh_def selectedOwner_def selection_mount)
  have b: "selection (run to_selected (mount None disconnected False)) =
     Some \<lparr>owner = ''octo'', repo = ''site'', branch = ''main''\<rparr>"
    using selected_eq by (simp add: selected_def fresh_def)
  from repo_needs_owner[of "''site''" fresh "''octo''" to_selected None disconnected False] a b
  show ?thesis by simp
qed

text \<open>
  C9, as amended. An owner change or a repository change to a non-empty value, and a
  branch input change or a commit message change to any value, reset the push state to
  idle in the same step. An owner change to the empty value only clears the selection,
  and a repository change to the empty value only empties the repository of the
  selection (if there is one): both leave everything else, the push state included, as
  it was.
\<close>

theorem edits_reset_push_state:
  "(new_owner \<noteq> [] \<longrightarrow> pushState (handleOwnerChange new_owner s) = idle) \<and>
   (new_repo \<noteq> [] \<longrightarrow> pushState (handleRepoChange new_repo s) = idle) \<and>
   pushState (handleBranchInputChange new_branch s) = idle \<and>
   pushState (handleCommitMessageChange new_message s) = idle \<and>
   pushState (handleOwnerChange [] s) = pushState s \<and>
   pushState (handleRepoChange [] s) = pushState s \<and>
   handleOwnerChange [] s = s\<lparr>selection := None\<rparr> \<and>
   handleRepoChange [] s =
     s\<lparr>selection :=
         (case selection s of None \<Rightarrow> None | Some prev \<Rightarrow> Some (prev\<lparr>repo := []\<rparr>))\<rparr>"
  by (simp add: handleOwnerChange_def handleRepoChange_def handleBranchInputChange_def
      handleCommitMessageChange_def Let_def)

text \<open>The theorem at the header whose push has succeeded.\<close>

theorem edits_reset_push_state_witness:
  "push_status (pushState pushed) = Success \<and>
   pushState (handleOwnerChange ''hubot'' pushed) = idle \<and>
   pushState (handleRepoChange ''docs'' pushed) = idle \<and>
   pushState (handleBranchInputChange [] pushed) = idle \<and>
   pushState (handleCommitMessageChange [] pushed) = idle \<and>
   selection pushed = Some \<lparr>owner = ''octo'', repo = ''site'', branch = ''main''\<rparr> \<and>
   handleOwnerChange [] pushed = pushed\<lparr>selection := None\<rparr> \<and>
   handleRepoChange [] pushed =
     pushed\<lparr>selection := Some \<lparr>owner = ''octo'', repo = [], branch = ''main''\<rparr>\<rparr> \<and>
   push_status (pushState (handleOwnerChange [] pushed)) = Success \<and>
   push_status (pushState (handleRepoChange [] pushed)) = Success"
proof -
  have a: "push_status (pushState pushed) = Success" by (simp add: pushed_eq)
  have b: "''hubot'' \<noteq> []" "''docs'' \<noteq> []" by simp_all
  have c: "selection pushed = Some \<lparr>owner = ''octo'', repo = ''site'', branch = ''main''\<rparr>"
    by (simp add: pushed_eq selected_eq)
  from edits_reset_push_state[of "''hubot''" pushed "''docs''" "[]" "[]"] a b c
  show ?thesis by simp
qed

text \<open>
  C9 as stated fails for the empty value: after a push has succeeded, clearing the owner
  or clearing the repository leaves the push state at success.
\<close>

theorem empty_edit_keeps_push_state_counterexample:
  "push_status (pushState pushed) = Success \<and>
   push_status (pushState (step (OwnerChange []) pushed)) = Success \<and>
   push_status (pushState (step (RepoChange []) pushed)) = Success \<and>
   pushState (step (OwnerChange []) pushed) \<noteq> idle \<and>
   pushState (step (RepoChange []) pushed) \<noteq> idle"
  by (simp add: pushed_eq step_def handleOwnerChange_def handleRepoChange_def idle_def)

text \<open>
  C10. The branch name the header uses is never empty: \<open>handleBranchInputChange\<close> puts
  \<open>main\<close> in place of an empty input value; the selected branch is \<open>main\<close> when there is
  no selection; the body of every push request carries a non-empty branch, which is
  \<open>main\<close> when the branch input is empty; and in every header reached from mounting by
  any events, neither the selected branch nor the branch input is empty.
\<close>

theorem branch_is_never_empty:
  "branchInput (handleBranchInputChange target_value s) \<noteq> [] \<and>
   (target_value = [] \<longrightarrow> branchInput (handleBranchInputChange target_value s) = ''main'') \<and>
   (selection unselected = None \<longrightarrow> selectedBranch unselected = ''main'') \<and>
   (snd (handlePushToGitHub_begin pushing) = Some sent \<longrightarrow>
      push_branch sent \<noteq> [] \<and> (branchInput pushing = [] \<longrightarrow> push_branch sent = ''main'')) \<and>
   branch_named (run evs (mount sel conn ini))"
  using run_branch_named[OF mount_branch_named, of evs sel conn ini]
  by (auto simp: handleBranchInputChange_def Let_def selectedBranch_def
      handlePushToGitHub_begin_def split: option.splits if_splits)

text \<open>
  The theorem at an emptied input on the selected header, at the freshly mounted header
  (no selection), and at a push from a header whose branch input is empty.
\<close>

theorem branch_is_never_empty_witness:
  "branchInput (handleBranchInputChange [] selected) = ''main'' \<and>
   selection fresh = None \<and>
   selectedBranch fresh = ''main'' \<and>
   branchInput unnamed_branch = [] \<and>
   snd (handlePushToGitHub_begin unnamed_branch) =
     Some \<lparr>push_owner = ''octo'', push_repo = ''site'', push_branch = ''main'',
           push_commitMessage = ''Sync from Shopify Data Generator''\<rparr> \<and>
   selectedBranch (run to_selected (mount None disconnected False)) = ''main'' \<and>
   branchInput (run to_selected (mount None disconnected False)) = ''main''"
proof -
  have a: "selection fresh = None" by (simp add: fresh_def selection_mount)
  have b: "branchInput unnamed_branch = []" by (simp add: unnamed_branch_def)
  have c: "snd (handlePushToGitHub_begin unnamed_branch) =
     Some \<lparr>push_owner = ''octo'', push_repo = ''site'', push_branch = ''main'',
           push_commitMessage = ''Sync from Shopify Data Generator''\<rparr>"
    by (simp add: unnamed_branch_def selected_eq handlePushToGitHub_begin_def trim_def
        is_space_def)
  have d: "run to_selected (mount None disconnected False) = selected"
    by (simp add: selected_def fresh_def)
  from branch_is_never_empty
         [of "[]" selected fresh unnamed_branch
             "\<lparr>push_owner = ''octo'', push_repo = ''site'', push_branch = ''main'',
               push_commitMessage = ''Sync from Shopify Data Generator''\<rparr>"
             to_selected None disconnected False]
       a b c d
  show ?thesis by (simp add: selected_eq selectedBranch_def)
qed

end
